theory Spec2Isabelle
  imports Main
begin

section \<open>Python strings\<close>

text \<open>
  The scraper works on Python \<open>str\<close> values. They are modelled as \<open>string\<close>, one
  \<open>char\<close> per code point, so the model covers the code points below 256 (Latin-1); the
  classifications below are those of CPython for that range.
\<close>

definition code :: "char \<Rightarrow> nat" where
  "code c = of_char c"

text \<open>\<open>str.isspace\<close> for one character, the set that \<open>str.strip()\<close> removes.\<close>

definition isspace :: "char \<Rightarrow> bool" where
  "isspace c = ((9 \<le> code c \<and> code c \<le> 13) \<or> (28 \<le> code c \<and> code c \<le> 32)
                \<or> code c = 133 \<or> code c = 160)"

text \<open>\<open>s.strip()\<close>: leading and trailing whitespace removed.\<close>

definition strip :: "string \<Rightarrow> string" where
  "strip s = rev (dropWhile isspace (rev (dropWhile isspace s)))"

text \<open>
  \<open>s.lower()\<close>: the capitals \<open>A\<close>..\<open>Z\<close> and the Latin-1 capitals 192..222 (all but the
  multiplication sign 215) move up by 32. Bit 5 is clear in both ranges, so adding 32
  sets that bit.
\<close>

definition lower_char :: "char \<Rightarrow> char" where
  "lower_char c =
     (if (65 \<le> code c \<and> code c \<le> 90) \<or> (192 \<le> code c \<and> code c \<le> 222 \<and> code c \<noteq> 215)
      then Char (digit0 c) (digit1 c) (digit2 c) (digit3 c) (digit4 c) True (digit6 c) (digit7 c)
      else c)"

definition lower :: "string \<Rightarrow> string" where
  "lower s = map lower_char s"

text \<open>
  \<open>s.split(sep)\<close> for a non-empty separator: the pieces between the occurrences of
  \<open>sep\<close>, found from the left without overlap. \<open>acc\<close> holds the current piece reversed.
  Both call sites pass a constant, non-empty separator.
\<close>

fun split_from :: "string \<Rightarrow> string \<Rightarrow> string \<Rightarrow> string list" where
  "split_from sep acc [] = [rev acc]"
| "split_from sep acc (c # cs) =
     (if take (length sep) (c # cs) = sep
      then rev acc # split_from sep [] (drop (length sep - 1) cs)
      else split_from sep (c # acc) cs)"

definition split :: "string \<Rightarrow> string \<Rightarrow> string list" where
  "split s sep = split_from sep [] s"

text \<open>\<open>sub in s\<close> on strings: \<open>sub\<close> occurs somewhere in \<open>s\<close>.\<close>

fun contains :: "string \<Rightarrow> string \<Rightarrow> bool" where
  "contains sub [] = (sub = [])"
| "contains sub (c # cs) = (take (length sub) (c # cs) = sub \<or> contains sub cs)"

text \<open>
  \<open>int(s)\<close> on a string, base 10; \<open>None\<close> stands for the \<open>ValueError\<close>. The text is
  trimmed (of the whitespace \<open>int\<close> accepts, which leaves out the separators 28 to 31),
  then an optional sign, then decimal digits, single underscores allowed between digits.
  CPython from 3.11 on also refuses a text with too many digits: with the limit \<open>lim\<close> of
  \<open>sys.get_int_max_str_digits()\<close> (4300 unless configured, 0 for no limit and on older
  interpreters, otherwise at least 640), a text with more than \<open>lim\<close> digit characters
  is a \<open>ValueError\<close> too. Leading zeros count, underscores do not.
\<close>

definition over_limit :: "nat \<Rightarrow> nat \<Rightarrow> bool" where
  "over_limit lim n = (0 < lim \<and> lim < n \<and> 640 < n)"

definition int_space :: "char \<Rightarrow> bool" where
  "int_space c = ((9 \<le> code c \<and> code c \<le> 13) \<or> code c = 32 \<or> code c = 133 \<or> code c = 160)"

definition is_digit :: "char \<Rightarrow> bool" where
  "is_digit c = (48 \<le> code c \<and> code c \<le> 57)"

definition digit_val :: "char \<Rightarrow> nat" where
  "digit_val c = code c - 48"

fun digits_from :: "nat \<Rightarrow> string \<Rightarrow> nat option" where
  "digits_from acc [] = Some acc"
| "digits_from acc [c] = (if is_digit c then Some (10 * acc + digit_val c) else None)"
| "digits_from acc (c # d # cs) =
     (if is_digit c then digits_from (10 * acc + digit_val c) (d # cs)
      else if c = CHR ''_'' \<and> is_digit d then digits_from (10 * acc + digit_val d) cs
      else None)"

definition digits :: "nat \<Rightarrow> string \<Rightarrow> nat option" where
  "digits lim s =
     (case s of
        [] \<Rightarrow> None
      | c # cs \<Rightarrow>
          if is_digit c
          then (case digits_from (digit_val c) cs of
                  None \<Rightarrow> None
                | Some v \<Rightarrow> if over_limit lim (length (filter is_digit s)) then None else Some v)
          else None)"

definition py_int :: "nat \<Rightarrow> string \<Rightarrow> int option" where
  "py_int lim s =
     (case rev (dropWhile int_space (rev (dropWhile int_space s))) of
        [] \<Rightarrow> None
      | c # cs \<Rightarrow>
          if c = CHR ''-'' then map_option (\<lambda>n. - int n) (digits lim cs)
          else if c = CHR ''+'' then map_option int (digits lim cs)
          else map_option int (digits lim (c # cs)))"

text \<open>The double quote, for the messages built with \<open>"%s"\<close>.\<close>

definition dq :: string where
  "dq = [CHR 0x22]"

section \<open>Values, exceptions and collaborators\<close>

text \<open>
  The values a field of the anime record can hold: \<open>None\<close>, a string, an integer, a
  \<open>datetime.date\<close> (year, month, day) and the pair returned for the premiere.
\<close>

datatype date = Date int int int

datatype pyvalue = PyNone | PyStr string | PyInt int | PyDate date | PyPair pyvalue pyvalue

text \<open>
  Modelled from the spec: the exception classes \<open>MissingTagError\<close> and \<open>ParseError\<close> come
  from \<open>mal_scraper/exceptions.py\<close>, which is not among the sources. The spec names two
  error kinds, missing-tag and parse-error, and says that both are caught by the
  extraction table; the table's handler is \<open>except ParseError\<close>, so \<open>MissingTagError\<close> is
  a subclass of \<open>ParseError\<close>. \<open>MissingTagError\<close> carries the tag it was built with,
  \<open>ParseError\<close> the tag and the message. The other constructors are Python's built-in
  exceptions that the code can meet; \<open>OtherError\<close> stands for any further class.
\<close>

datatype exn =
    MissingTagError string
  | ParseError string string
  | ValueError
  | TypeError
  | AttributeError
  | IndexError
  | SyntaxError
  | OtherError string

fun isinstance_ParseError :: "exn \<Rightarrow> bool" where
  "isinstance_ParseError (MissingTagError tag) = True"
| "isinstance_ParseError (ParseError tag msg) = True"
| "isinstance_ParseError e = False"

text \<open>
  What the code reads of a \<open>requests.Response\<close>: \<open>status_code\<close>, \<open>ok\<close> and \<open>content\<close>.
  The truth value of a response, tested by \<open>if not response\<close>, is its \<open>ok\<close>
  (\<open>Response.__bool__\<close> returns \<open>self.ok\<close>).
\<close>

record response =
  status_code :: int
  ok :: bool
  content :: string

definition response_bool :: "response \<Rightarrow> bool" where
  "response_bool r = ok r"

text \<open>
  What the code reads of the parsed document. A node beside a tag is a
  \<open>NavigableString\<close> or another tag (\<open>TagNode\<close>; calling \<open>.strip()\<close> on one that has no
  \<open>strip\<close> element inside is a \<open>TypeError\<close>). Of a tag found for its text only the
  \<open>.string\<close> is read, which is \<open>None\<close> unless the tag has a single text inside. Of a
  label span the code reads \<open>.next_sibling\<close> and \<open>.find_next('a')\<close>.
\<close>

datatype node = NavigableString string | TagNode

datatype element = Element (tag_string: "string option")

record tag =
  next_sibling :: "node option"
  find_next_a :: "element option"

text \<open>
  The document itself is taken through the two queries the code makes:
  \<open>soup.find('span', itemprop='name')\<close> and \<open>soup.find('span', string=label)\<close>.
\<close>

record soup =
  find_itemprop_name :: "element option"
  find_span :: "string \<Rightarrow> tag option"

text \<open>
  The collaborators outside the sources: \<open>retry_on_fail(requests.get, url)\<close>, whose
  result is a response or a false value (\<open>None\<close>); the HTML parser; the clock; the
  interpreter's limit on the digits of an integer text (see \<open>py_int\<close>);
  \<open>mal_utils.get_date\<close>, which returns a date or raises; and Python's \<open>eval\<close> on the
  source texts whose evaluation the model does not fix (see \<open>get_date\<close> below).
\<close>

record env =
  retry_on_fail_get :: "string \<Rightarrow> response option"
  html_parser :: "string \<Rightarrow> soup"
  utcnow :: nat
  int_max_str_digits :: nat
  mal_get_date :: "string \<Rightarrow> exn + date"
  py_eval :: "string \<Rightarrow> exn + pyvalue"

section \<open>The field extractors\<close>

text \<open>
  The source's names are kept without their leading underscore; \<open>get_date\<close> is the
  module's own \<open>_get_date\<close>, and \<open>mal_get_date\<close> the imported \<open>get_date\<close>. An extractor
  that converts an integer text or parses a date takes the environment beside the
  document: the first for the interpreter's digit limit, the second for the
  collaborators.
\<close>

definition get_name :: "soup \<Rightarrow> exn + pyvalue" where
  "get_name soup =
     (case find_itemprop_name soup of
        None \<Rightarrow> Inl (MissingTagError ''name'')
      | Some tag \<Rightarrow> (case tag_string tag of None \<Rightarrow> Inr PyNone | Some text \<Rightarrow> Inr (PyStr text)))"

text \<open>\<open>pretag.next_sibling.strip()\<close>\<close>

definition next_sibling_strip :: "tag \<Rightarrow> exn + string" where
  "next_sibling_strip pretag =
     (case next_sibling pretag of
        None \<Rightarrow> Inl AttributeError
      | Some TagNode \<Rightarrow> Inl TypeError
      | Some (NavigableString s) \<Rightarrow> Inr (strip s))"

text \<open>\<open>pretag.find_next('a').string\<close>\<close>

definition find_next_a_string :: "tag \<Rightarrow> exn + string option" where
  "find_next_a_string pretag =
     (case find_next_a pretag of
        None \<Rightarrow> Inl AttributeError
      | Some a \<Rightarrow> Inr (tag_string a))"

definition get_english_name :: "soup \<Rightarrow> exn + pyvalue" where
  "get_english_name soup =
     (case find_span soup ''English:'' of
        None \<Rightarrow> Inr PyNone
      | Some pretag \<Rightarrow>
          (case next_sibling_strip pretag of Inl e \<Rightarrow> Inl e | Inr text \<Rightarrow> Inr (PyStr text)))"

definition get_japanese_name :: "soup \<Rightarrow> exn + pyvalue" where
  "get_japanese_name soup =
     (case find_span soup ''Japanese:'' of
        None \<Rightarrow> Inr PyNone
      | Some pretag \<Rightarrow>
          (case next_sibling_strip pretag of Inl e \<Rightarrow> Inl e | Inr text \<Rightarrow> Inr (PyStr text)))"

definition get_format :: "soup \<Rightarrow> exn + pyvalue" where
  "get_format soup =
     (case find_span soup ''Type:'' of
        None \<Rightarrow> Inl (MissingTagError ''type'')
      | Some pretag \<Rightarrow>
          (case find_next_a_string pretag of
             Inl e \<Rightarrow> Inl e
           | Inr None \<Rightarrow> Inl AttributeError
           | Inr (Some s) \<Rightarrow> Inr (PyStr (strip s))))"

definition get_episodes :: "env \<Rightarrow> soup \<Rightarrow> exn + pyvalue" where
  "get_episodes env soup =
     (case find_span soup ''Episodes:'' of
        None \<Rightarrow> Inl (MissingTagError ''episodes'')
      | Some pretag \<Rightarrow>
          (case next_sibling_strip pretag of
             Inl e \<Rightarrow> Inl e
           | Inr stripped \<Rightarrow>
               (let episodes_text = lower stripped in
                if episodes_text = ''unknown'' then Inr (PyInt 0)
                else case py_int (int_max_str_digits env) episodes_text of
                       None \<Rightarrow> Inl (ParseError ''episodes''
                                 (''Unable to convert text '' @ dq @ episodes_text @ dq @ '' to int''))
                     | Some episodes_number \<Rightarrow> Inr (PyInt episodes_number))))"

text \<open>The dictionary of \<open>_get_airing_status\<close>, with \<open>.get(status_text, None)\<close>.\<close>

definition status_table :: "string \<rightharpoonup> string" where
  "status_table = [''finished airing'' \<mapsto> ''Finished Airing'',
                   ''currently airing'' \<mapsto> ''Currently Airing'']"

definition get_airing_status :: "soup \<Rightarrow> exn + pyvalue" where
  "get_airing_status soup =
     (case find_span soup ''Status:'' of
        None \<Rightarrow> Inl (MissingTagError ''status'')
      | Some pretag \<Rightarrow>
          (case next_sibling_strip pretag of
             Inl e \<Rightarrow> Inl e
           | Inr stripped \<Rightarrow>
               (let status_text = lower stripped in
                case status_table status_text of
                  None \<Rightarrow> Inl (ParseError ''status''
                            (''Unable to identify text '' @ dq @ status_text @ dq))
                | Some status \<Rightarrow> Inr (PyStr status))))"

text \<open>
  \<open>_get_date\<close> evaluates the Python source \<open>get_date('<date_text>')\<close>. When the text has
  no quote, backslash, line break or NUL, the literal denotes the text itself and the
  call is \<open>get_date(date_text)\<close>. A line break before any quote or backslash ends the
  line inside the literal: a \<open>SyntaxError\<close>. Every other text (escape sequences, a quote
  that closes the literal early, a NUL) is left to the collaborator \<open>py_eval\<close>.
\<close>

definition literal_special :: "char \<Rightarrow> bool" where
  "literal_special c = (c = CHR 0x27 \<or> c = CHR 0x5C \<or> c = CHR 0x0A \<or> c = CHR 0x0D)"

definition get_date_source :: "string \<Rightarrow> string" where
  "get_date_source date_text = ''get_date('' @ [CHR 0x27] @ date_text @ [CHR 0x27] @ '')''"

definition get_date :: "env \<Rightarrow> string \<Rightarrow> exn + pyvalue" where
  "get_date env date_text =
     (if CHR 0x00 \<in> set date_text then py_eval env (get_date_source date_text)
      else case dropWhile (\<lambda>c. \<not> literal_special c) date_text of
             [] \<Rightarrow> (case mal_get_date env date_text of Inl e \<Rightarrow> Inl e | Inr d \<Rightarrow> Inr (PyDate d))
           | c # rest \<Rightarrow>
               if c = CHR 0x0A \<or> c = CHR 0x0D then Inl SyntaxError
               else py_eval env (get_date_source date_text))"

text \<open>\<open>xs[i]\<close> for an index that is not negative.\<close>

definition item :: "'a list \<Rightarrow> nat \<Rightarrow> exn + 'a" where
  "item xs i = (if i < length xs then Inr (xs ! i) else Inl IndexError)"

definition get_start_date :: "env \<Rightarrow> soup \<Rightarrow> exn + pyvalue" where
  "get_start_date env soup =
     (case find_span soup ''Aired:'' of
        None \<Rightarrow> Inl (MissingTagError ''aired'')
      | Some pretag \<Rightarrow>
          (case next_sibling_strip pretag of
             Inl e \<Rightarrow> Inl e
           | Inr aired_text \<Rightarrow>
               (case item (split aired_text '' to '') 0 of
                  Inl e \<Rightarrow> Inl e
                | Inr start_text \<Rightarrow>
                    (case get_date env start_text of
                       Inl e \<Rightarrow>
                         if e = ValueError
                         then Inl (ParseError ''airing start date''
                                (''Cannot process text '' @ dq @ start_text @ dq))
                         else Inl e
                     | Inr start_date \<Rightarrow> Inr start_date))))"

definition get_end_date :: "env \<Rightarrow> soup \<Rightarrow> exn + pyvalue" where
  "get_end_date env soup =
     (case find_span soup ''Aired:'' of
        None \<Rightarrow> Inl (MissingTagError ''aired'')
      | Some pretag \<Rightarrow>
          (case next_sibling_strip pretag of
             Inl e \<Rightarrow> Inl e
           | Inr aired_text \<Rightarrow>
               (case (if contains '' to '' aired_text
                      then item (split aired_text '' to '') 1
                      else Inr aired_text) of
                  Inl e \<Rightarrow> Inl e
                | Inr end_text \<Rightarrow>
                    if end_text = ''?'' then Inr PyNone
                    else (case get_date env end_text of
                            Inl e \<Rightarrow>
                              if e = ValueError
                              then Inl (ParseError ''airing end date''
                                     (''Cannot process text '' @ dq @ end_text @ dq))
                              else Inl e
                          | Inr end_date \<Rightarrow> Inr end_date))))"

text \<open>The \<open>try: year = int(year)\<close> block and the \<open>return\<close> that follows it.\<close>

definition premiere_year :: "env \<Rightarrow> string \<Rightarrow> string \<Rightarrow> exn + pyvalue" where
  "premiere_year env season year =
     (case py_int (int_max_str_digits env) year of
        None \<Rightarrow> Inl (ParseError ''premiered'' (''Unable to identify year '' @ dq @ year @ dq))
      | Some y \<Rightarrow> Inr (PyPair (PyInt y) (PyStr season)))"

definition get_airing_premiere :: "env \<Rightarrow> soup \<Rightarrow> exn + pyvalue" where
  "get_airing_premiere env soup =
     (case find_span soup ''Premiered:'' of
        None \<Rightarrow> Inr PyNone
      | Some pretag \<Rightarrow>
          (case find_next_a_string pretag of
             Inl e \<Rightarrow> Inl e
           | Inr None \<Rightarrow> Inl AttributeError
           | Inr (Some s) \<Rightarrow>
               (case split (lower s) '' '' of
                  [season, year] \<Rightarrow>
                    if season = ''fall'' then premiere_year env ''autumn'' year
                    else if season \<notin> set [''spring'', ''summer'', ''autumn'', ''winter'']
                    then Inl (ParseError ''premiered''
                           (''Unable to identify season '' @ dq @ season @ dq))
                    else premiere_year env season year
                | _ \<Rightarrow> Inl ValueError)))"

section \<open>The extraction table\<close>

text \<open>The dictionary \<open>retrieve\<close>, in its insertion order, which is the order of the loop.\<close>

definition retrieve :: "env \<Rightarrow> (string \<times> (soup \<Rightarrow> exn + pyvalue)) list" where
  "retrieve env =
     [(''name'', get_name),
      (''name_english'', get_english_name),
      (''name_japanese'', get_japanese_name),
      (''format'', get_format),
      (''episodes'', get_episodes env),
      (''airing_status'', get_airing_status),
      (''airing_started'', get_start_date env),
      (''airing_finished'', get_end_date env),
      (''airing_premiere'', get_airing_premiere env)]"

text \<open>
  The loop \<open>for tag, func in retrieve.items()\<close>, with the dictionary \<open>retrieved\<close> and the
  list \<open>failed_tags\<close> as they stand. An exception that \<open>except ParseError\<close> does not
  catch leaves the loop and the function.
\<close>

fun process_fields ::
  "(string \<times> (soup \<Rightarrow> exn + pyvalue)) list \<Rightarrow> soup \<Rightarrow> (string \<rightharpoonup> pyvalue) \<Rightarrow> string list
     \<Rightarrow> exn + ((string \<rightharpoonup> pyvalue) \<times> string list)" where
  "process_fields [] soup retrieved failed_tags = Inr (retrieved, failed_tags)"
| "process_fields ((tag, func) # rest) soup retrieved failed_tags =
     (case func soup of
        Inl e \<Rightarrow>
          if isinstance_ParseError e
          then process_fields rest soup (retrieved(tag \<mapsto> PyNone)) (failed_tags @ [tag])
          else Inl e
      | Inr result \<Rightarrow> process_fields rest soup (retrieved(tag \<mapsto> result)) failed_tags)"

text \<open>The state of \<open>_process_soup\<close> after its loop: \<open>(retrieved, failed_tags)\<close>.\<close>

definition process_soup_loop :: "env \<Rightarrow> soup \<Rightarrow> exn + ((string \<rightharpoonup> pyvalue) \<times> string list)" where
  "process_soup_loop env soup = process_fields (retrieve env) soup Map.empty []"

definition process_soup :: "env \<Rightarrow> soup \<Rightarrow> exn + (bool \<times> (string \<rightharpoonup> pyvalue))" where
  "process_soup env soup =
     (case process_soup_loop env soup of
        Inl e \<Rightarrow> Inl e
      | Inr (retrieved, failed_tags) \<Rightarrow> Inr (failed_tags = [], retrieved))"


section \<open>The fetcher\<close>

text \<open>\<open>'{:d}'.format(n)\<close>: the decimal digits, with a minus sign for a negative number.\<close>

fun format_nat :: "nat \<Rightarrow> string" where
  "format_nat n =
     (if n < 10 then [char_of (48 + n)]
      else format_nat (n div 10) @ [char_of (48 + n mod 10)])"

definition format_d :: "int \<Rightarrow> string" where
  "format_d i = (if i < 0 then CHR ''-'' # format_nat (nat (- i)) else format_nat (nat i))"

definition get_url_from_id_ref :: "int \<Rightarrow> string" where
  "get_url_from_id_ref n = ''http://myanimelist.net/anime/'' @ format_d n"

record retrieval_info =
  success :: bool
  scraper_retrieved_at :: nat
  id_ref :: int

text \<open>
  What \<open>retrieve_anime\<close> returns: an integer, or the pair of the two dictionaries. The
  keys of the first dictionary are the fields of \<open>retrieval_info\<close>, so the parameter
  \<open>id_ref\<close> and the local \<open>success\<close> are written with a prime.
\<close>

datatype retrieved = StatusCode int | Retrieved retrieval_info "string \<rightharpoonup> pyvalue"

definition retrieve_anime :: "env \<Rightarrow> int \<Rightarrow> exn + retrieved" where
  "retrieve_anime env id_ref' =
     (let url = get_url_from_id_ref id_ref' in
      case retry_on_fail_get env url of
        None \<Rightarrow> Inr (StatusCode 404)
      | Some response \<Rightarrow>
          if \<not> response_bool response then Inr (StatusCode 404)
          else if \<not> ok response then Inr (StatusCode (status_code response))
          else (case process_soup env (html_parser env (content response)) of
                  Inl e \<Rightarrow> Inl e
                | Inr (success', info) \<Rightarrow>
                    Inr (Retrieved \<lparr>success = success', scraper_retrieved_at = utcnow env,
                                     id_ref = id_ref'\<rparr> info)))"

section \<open>Example documents\<close>

text \<open>
  A date parser for the examples: it knows three texts and raises \<open>ValueError\<close> on
  every other one. The example evaluator raises on the sources left to it.
\<close>

definition example_get_date :: "string \<Rightarrow> exn + date" where
  "example_get_date text =
     (case map_of [(''Apr 3, 1998'', Date 1998 4 3),
                   (''Apr 24, 1999'', Date 1999 4 24),
                   (''Apr 3, 2015'', Date 2015 4 3)] text of
        None \<Rightarrow> Inl ValueError
      | Some d \<Rightarrow> Inr d)"

definition label_text :: "string \<Rightarrow> tag" where
  "label_text s = \<lparr>next_sibling = Some (NavigableString s), find_next_a = None\<rparr>"

definition label_link :: "string \<Rightarrow> tag" where
  "label_link s = \<lparr>next_sibling = Some (NavigableString '' ''),
                    find_next_a = Some (Element (Some s))\<rparr>"

text \<open>A complete page: every label present, every text in its expected form.\<close>

definition bebop_soup :: soup where
  "bebop_soup =
     \<lparr>find_itemprop_name = Some (Element (Some ''Cowboy Bebop'')),
      find_span = map_of
        [(''English:'', label_text '' Cowboy Bebop ''),
         (''Japanese:'', label_text '' Kauboi Bibappu ''),
         (''Type:'', label_link ''TV''),
         (''Episodes:'', label_text '' 26 ''),
         (''Status:'', label_text '' Finished Airing ''),
         (''Aired:'', label_text '' Apr 3, 1998 to Apr 24, 1999 ''),
         (''Premiered:'', label_link ''Spring 1998'')]\<rparr>"

definition bebop_record :: "string \<rightharpoonup> pyvalue" where
  "bebop_record =
     [''name'' \<mapsto> PyStr ''Cowboy Bebop'',
      ''name_english'' \<mapsto> PyStr ''Cowboy Bebop'',
      ''name_japanese'' \<mapsto> PyStr ''Kauboi Bibappu'',
      ''format'' \<mapsto> PyStr ''TV'',
      ''episodes'' \<mapsto> PyInt 26,
      ''airing_status'' \<mapsto> PyStr ''Finished Airing'',
      ''airing_started'' \<mapsto> PyDate (Date 1998 4 3),
      ''airing_finished'' \<mapsto> PyDate (Date 1999 4 24),
      ''airing_premiere'' \<mapsto> PyPair (PyInt 1998) (PyStr ''spring'')]"

text \<open>
  A page still airing, with the texts of the spec's examples; it has no \<open>Type:\<close>,
  \<open>English:\<close> or \<open>Japanese:\<close> label, and its episode text is not a number.
\<close>

definition airing_soup :: soup where
  "airing_soup =
     \<lparr>find_itemprop_name = Some (Element (Some ''Ore Monogatari!!'')),
      find_span = map_of
        [(''Episodes:'', label_text '' abc ''),
         (''Status:'', label_text '' Currently Airing ''),
         (''Aired:'', label_text '' Apr 3, 2015 to ? ''),
         (''Premiered:'', label_link ''Fall 2014'')]\<rparr>"

definition airing_record :: "string \<rightharpoonup> pyvalue" where
  "airing_record =
     [''name'' \<mapsto> PyStr ''Ore Monogatari!!'',
      ''name_english'' \<mapsto> PyNone,
      ''name_japanese'' \<mapsto> PyNone,
      ''format'' \<mapsto> PyNone,
      ''episodes'' \<mapsto> PyNone,
      ''airing_status'' \<mapsto> PyStr ''Currently Airing'',
      ''airing_started'' \<mapsto> PyDate (Date 2015 4 3),
      ''airing_finished'' \<mapsto> PyNone,
      ''airing_premiere'' \<mapsto> PyPair (PyInt 2014) (PyStr ''autumn'')]"

text \<open>A page whose \<open>Aired:\<close> text is broken over two lines.\<close>

definition line_break_soup :: soup where
  "line_break_soup =
     bebop_soup\<lparr>find_span := (find_span bebop_soup)
        (''Aired:'' \<mapsto> label_text ('' Apr 3,'' @ [CHR 0x0A] @ ''2015 to ? ''))\<rparr>"

text \<open>A page whose \<open>Type:\<close> label is followed by no link at all.\<close>

definition no_link_soup :: soup where
  "no_link_soup =
     bebop_soup\<lparr>find_span := (find_span bebop_soup) (''Type:'' \<mapsto> label_text '' TV '')\<rparr>"

text \<open>Two pages whose \<open>Premiered:\<close> link text is not a season, one space and a year.\<close>

definition one_word_soup :: soup where
  "one_word_soup =
     bebop_soup\<lparr>find_span := (find_span bebop_soup) (''Premiered:'' \<mapsto> label_link ''Foo'')\<rparr>"

definition trailing_space_soup :: soup where
  "trailing_space_soup =
     bebop_soup\<lparr>find_span := (find_span bebop_soup)
        (''Premiered:'' \<mapsto> label_link ''Fall 2014 '')\<rparr>"



text \<open>
  The fetch of the examples: identifier 1 is answered with status 200, identifier 2 with
  status 500, and the retries run out on every other address.
\<close>

definition example_fetch :: "string \<Rightarrow> response option" where
  "example_fetch url =
     (if url = ''http://myanimelist.net/anime/1''
      then Some \<lparr>status_code = 200, ok = True, content = ''<html>''\<rparr>
      else if url = ''http://myanimelist.net/anime/2''
      then Some \<lparr>status_code = 500, ok = False, content = []\<rparr>
      else None)"

definition example_env :: env where
  "example_env =
     \<lparr>retry_on_fail_get = example_fetch,
      html_parser = (\<lambda>text. bebop_soup),
      utcnow = 0,
      int_max_str_digits = 4300,
      mal_get_date = example_get_date,
      py_eval = (\<lambda>source. Inl SyntaxError)\<rparr>"

section \<open>Facts about the string functions\<close>

lemma code_lower_char:
  "code (lower_char c) =
     (if (65 \<le> code c \<and> code c \<le> 90) \<or> (192 \<le> code c \<and> code c \<le> 222 \<and> code c \<noteq> 215)
      then code c + 32 else code c)"
proof (cases c)
  case (Char b0 b1 b2 b3 b4 b5 b6 b7)
  show ?thesis
    unfolding Char lower_char_def code_def
    by (cases b5; cases b6; cases b7) (simp_all add: of_bool_def)
qed

subsection \<open>Splitting at a single character\<close>

lemma split_from_no_sep: "c \<notin> set b \<Longrightarrow> split_from [c] acc b = [rev acc @ b]"
  by (induction b arbitrary: acc) auto

lemma split_from_first_sep:
  "c \<notin> set a \<Longrightarrow> split_from [c] acc (a @ c # b) = (rev acc @ a) # split_from [c] [] b"
  by (induction a arbitrary: acc) auto

lemma split_two_pieces:
  assumes "c \<notin> set a" and "c \<notin> set b"
  shows "split (a @ [c] @ b) [c] = [a, b]"
  using split_from_first_sep [OF assms(1), of "[]" b] split_from_no_sep [OF assms(2), of "[]"]
  by (simp add: split_def)

subsection \<open>Splitting at the first separator\<close>

lemma split_from_absent: "sep \<noteq> [] \<Longrightarrow> \<not> contains sep s \<Longrightarrow> split_from sep acc s = [rev acc @ s]"
  by (induction s arbitrary: acc) auto

lemma split_from_at_sep:
  "sep \<noteq> [] \<Longrightarrow> split_from sep acc (sep @ rest) = rev acc # split_from sep [] rest"
  by (cases sep) simp_all

lemma split_from_first:
  assumes "sep \<noteq> []"
    and "\<forall>i < length a. take (length sep) (drop i (a @ sep @ rest)) \<noteq> sep"
  shows "split_from sep acc (a @ sep @ rest) = (rev acc @ a) # split_from sep [] rest"
  using assms(2)
proof (induction a arbitrary: acc)
  case Nil
  with assms(1) show ?case by (simp add: split_from_at_sep)
next
  case (Cons c a)
  from Cons.prems have "take (length sep) (c # a @ sep @ rest) \<noteq> sep" by force
  moreover from Cons.prems have "\<forall>i < length a. take (length sep) (drop i (a @ sep @ rest)) \<noteq> sep"
    by force
  ultimately show ?case using Cons.IH [of "c # acc"] by simp
qed

lemma contains_prefix: "contains sep (sep @ rest)"
proof (cases "sep @ rest")
  case Nil
  then show ?thesis by simp
next
  case (Cons c cs)
  have "take (length sep) (sep @ rest) = sep" by simp
  with Cons show ?thesis by simp
qed

lemma contains_at_sep: "contains sep (a @ sep @ rest)"
  by (induction a) (simp_all add: contains_prefix)

subsection \<open>Lower case keeps spaces, digits and signs\<close>

lemma lower_char_space: "lower_char x = CHR '' '' \<longleftrightarrow> x = CHR '' ''"
proof
  assume "lower_char x = CHR '' ''"
  then have "code (lower_char x) = 32" by (simp add: code_def)
  then have "code x = 32" by (simp add: code_lower_char split: if_splits)
  then have "of_char x = (of_char (CHR '' '') :: nat)" by (simp add: code_def)
  then show "x = CHR '' ''" by (simp only: of_char_eq_iff)
next
  assume "x = CHR '' ''"
  then show "lower_char x = CHR '' ''" by (simp add: lower_char_def code_def)
qed

lemma space_in_lower: "CHR '' '' \<in> set (lower s) \<longleftrightarrow> CHR '' '' \<in> set s"
proof -
  have "CHR '' '' \<in> lower_char ` set s \<longleftrightarrow> (\<exists>x \<in> set s. lower_char x = CHR '' '')"
    by (simp add: image_iff eq_commute)
  also have "\<dots> \<longleftrightarrow> CHR '' '' \<in> set s"
    by (simp add: lower_char_space)
  finally show ?thesis by (simp add: lower_def)
qed

lemma lower_append: "lower (a @ b) = lower a @ lower b"
  by (simp add: lower_def)

lemma lower_char_space_self: "lower_char (CHR '' '') = CHR '' ''"
  by (simp add: lower_char_space)

lemma lower_Cons: "lower (c # s) = lower_char c # lower s"
  by (simp add: lower_def)

lemma split_lower_two_pieces:
  assumes "CHR '' '' \<notin> set a" and "CHR '' '' \<notin> set b"
  shows "split (lower (a @ '' '' @ b)) '' '' = [lower a, lower b]"
  using split_two_pieces [of "CHR '' ''" "lower a" "lower b"] assms
  by (simp add: lower_append lower_Cons lower_char_space_self space_in_lower)

declare format_nat.simps [simp del]

subsection \<open>Decimal texts\<close>

















section \<open>Evaluating the examples\<close>

lemmas eval_defs = process_soup_def process_soup_loop_def retrieve_def bebop_soup_def bebop_record_def
    airing_soup_def airing_record_def line_break_soup_def no_link_soup_def example_env_def example_fetch_def
    get_name_def get_english_name_def get_japanese_name_def get_format_def get_episodes_def get_airing_status_def
    get_start_date_def get_end_date_def get_airing_premiere_def next_sibling_strip_def find_next_a_string_def
    label_text_def label_link_def strip_def isspace_def code_def lower_def lower_char_def py_int_def digits_def
    is_digit_def digit_val_def int_space_def status_table_def get_date_def literal_special_def item_def split_def
    example_get_date_def premiere_year_def dq_def over_limit_def
    one_word_soup_def trailing_space_soup_def

lemma bebop_processed: "process_soup_loop example_env bebop_soup = Inr (bebop_record, [])"
  by (simp add: eval_defs)


lemma line_break_processed: "process_soup_loop example_env line_break_soup = Inl SyntaxError"
  by (simp add: eval_defs)

lemma no_link_processed: "process_soup_loop example_env no_link_soup = Inl AttributeError"
  by (simp add: eval_defs)

lemma premiere_processed:
  "process_soup_loop example_env one_word_soup = Inl ValueError"
  "process_soup_loop example_env trailing_space_soup = Inl ValueError"
  by (simp_all add: eval_defs)

section \<open>The loop of the extraction table\<close>




















section \<open>The date texts\<close>

text \<open>
  A text with no quote, backslash, line break or NUL reaches the date parser as it is;
  a \<open>ValueError\<close> of the parser becomes the parse error of the field.
\<close>

lemma get_date_plain:
  assumes "\<forall>c \<in> set date_text. \<not> literal_special c \<and> c \<noteq> CHR 0x00"
  shows "get_date env date_text =
           (case mal_get_date env date_text of Inl e \<Rightarrow> Inl e | Inr d \<Rightarrow> Inr (PyDate d))"
proof -
  from assms have plain: "dropWhile (\<lambda>c. \<not> literal_special c) date_text = []" by simp
  from assms have "CHR 0x00 \<notin> set date_text" by blast
  then show ?thesis unfolding get_date_def plain by simp
qed

text \<open>
  A line break that comes before any quote or backslash is a \<open>SyntaxError\<close>, whatever
  the date parser and whatever follows; the date parser is not called.
\<close>

lemma get_date_line_break:
  assumes "\<forall>c \<in> set before. \<not> literal_special c" and "CHR 0x00 \<notin> set (before @ CHR 0x0A # after)"
  shows "get_date env (before @ CHR 0x0A # after) = Inl SyntaxError"
proof -
  from assms(1)
  have rest: "dropWhile (\<lambda>c. \<not> literal_special c) (before @ CHR 0x0A # after) = CHR 0x0A # after"
    by (simp add: dropWhile_append literal_special_def)
  from assms(2) show ?thesis unfolding get_date_def rest by simp
qed

text \<open>The spec's example, \<open>Apr 3, 2015 to ?\<close>, on the example date parser.\<close>

lemma aired_example:
  "get_start_date example_env airing_soup = Inr (PyDate (Date 2015 4 3))"
  "get_end_date example_env airing_soup = Inr PyNone"
  by (simp_all add: eval_defs)

text \<open>
  An \<open>Aired:\<close> text that is a start, the separator and an end, the separator occurring
  nowhere else: the start date comes from the start, the end date from the end, on
  pieces that reach the date parser as they are.
\<close>

lemma aired_pieces:
  assumes "find_span soup ''Aired:'' = Some pretag"
    and "next_sibling pretag = Some (NavigableString s)"
    and "strip s = start @ '' to '' @ finish"
    and "\<forall>i < length start. take 4 (drop i (start @ '' to '' @ finish)) \<noteq> '' to ''"
    and "\<not> contains '' to '' finish"
  shows "get_start_date env soup =
           (case get_date env start of
              Inl e \<Rightarrow> if e = ValueError
                       then Inl (ParseError ''airing start date''
                              (''Cannot process text '' @ dq @ start @ dq))
                       else Inl e
            | Inr d \<Rightarrow> Inr d)"
    and "get_end_date env soup =
           (if finish = ''?'' then Inr PyNone
            else case get_date env finish of
                   Inl e \<Rightarrow> if e = ValueError
                            then Inl (ParseError ''airing end date''
                                   (''Cannot process text '' @ dq @ finish @ dq))
                            else Inl e
                 | Inr d \<Rightarrow> Inr d)"
proof -
  have ne: "'' to '' \<noteq> []" and len: "length '' to '' = 4" by simp_all
  note first = split_from_first [OF ne, of start finish "[]", unfolded len, OF assms(4)]
  have pieces: "split (strip s) '' to '' = [start, finish]"
    unfolding assms(3) split_def first using assms(5) by (simp add: split_from_absent)
  have inside: "contains '' to '' (strip s)"
    unfolding assms(3) by (rule contains_at_sep)
  from assms(1,2) show "get_start_date env soup =
           (case get_date env start of
              Inl e \<Rightarrow> if e = ValueError
                       then Inl (ParseError ''airing start date''
                              (''Cannot process text '' @ dq @ start @ dq))
                       else Inl e
            | Inr d \<Rightarrow> Inr d)"
    by (simp add: get_start_date_def next_sibling_strip_def pieces item_def)
  from assms(1,2) show "get_end_date env soup =
           (if finish = ''?'' then Inr PyNone
            else case get_date env finish of
                   Inl e \<Rightarrow> if e = ValueError
                            then Inl (ParseError ''airing end date''
                                   (''Cannot process text '' @ dq @ finish @ dq))
                            else Inl e
                 | Inr d \<Rightarrow> Inr d)"
    by (simp add: get_end_date_def next_sibling_strip_def pieces inside item_def)
qed

text \<open>Without the separator both extractions take the whole text.\<close>

lemma aired_whole:
  assumes "find_span soup ''Aired:'' = Some pretag"
    and "next_sibling pretag = Some (NavigableString s)"
    and "\<not> contains '' to '' (strip s)"
  shows "get_start_date env soup =
           (case get_date env (strip s) of
              Inl e \<Rightarrow> if e = ValueError
                       then Inl (ParseError ''airing start date''
                              (''Cannot process text '' @ dq @ strip s @ dq))
                       else Inl e
            | Inr d \<Rightarrow> Inr d)"
    and "get_end_date env soup =
           (if strip s = ''?'' then Inr PyNone
            else case get_date env (strip s) of
                   Inl e \<Rightarrow> if e = ValueError
                            then Inl (ParseError ''airing end date''
                                   (''Cannot process text '' @ dq @ strip s @ dq))
                            else Inl e
                 | Inr d \<Rightarrow> Inr d)"
proof -
  from assms(3) have pieces: "split (strip s) '' to '' = [strip s]"
    by (simp add: split_def split_from_absent)
  from assms(1,2) show "get_start_date env soup =
           (case get_date env (strip s) of
              Inl e \<Rightarrow> if e = ValueError
                       then Inl (ParseError ''airing start date''
                              (''Cannot process text '' @ dq @ strip s @ dq))
                       else Inl e
            | Inr d \<Rightarrow> Inr d)"
    by (simp add: get_start_date_def next_sibling_strip_def pieces item_def)
  from assms show "get_end_date env soup =
           (if strip s = ''?'' then Inr PyNone
            else case get_date env (strip s) of
                   Inl e \<Rightarrow> if e = ValueError
                            then Inl (ParseError ''airing end date''
                                   (''Cannot process text '' @ dq @ strip s @ dq))
                            else Inl e
                 | Inr d \<Rightarrow> Inr d)"
    by (simp add: get_end_date_def next_sibling_strip_def)
qed

section \<open>The premiere text\<close>

text \<open>
  A link text that is a season, one space and a year, neither holding a space: both are
  lower-cased and \<open>fall\<close> becomes \<open>autumn\<close>; a season that is then none of the four
  canonical names raises a parse error, a year that \<open>int\<close> does not convert raises a
  parse error, and otherwise the pair of the year and the season is returned.
\<close>

lemma get_airing_premiere_two_pieces:
  assumes "find_span soup ''Premiered:'' = Some pretag"
    and "find_next_a pretag = Some (Element (Some (season_text @ '' '' @ year_text)))"
    and "CHR '' '' \<notin> set season_text" and "CHR '' '' \<notin> set year_text"
    and "season = (if lower season_text = ''fall'' then ''autumn'' else lower season_text)"
  shows "season \<notin> {''spring'', ''summer'', ''autumn'', ''winter''} \<Longrightarrow>
           \<exists>msg. get_airing_premiere env soup = Inl (ParseError ''premiered'' msg)"
    and "py_int (int_max_str_digits env) (lower year_text) = None \<Longrightarrow>
           \<exists>msg. get_airing_premiere env soup = Inl (ParseError ''premiered'' msg)"
    and "season \<in> {''spring'', ''summer'', ''autumn'', ''winter''} \<Longrightarrow>
         py_int (int_max_str_digits env) (lower year_text) = Some y \<Longrightarrow>
           get_airing_premiere env soup = Inr (PyPair (PyInt y) (PyStr season))"
proof -
  from assms(3,4) have pieces: "split (lower (season_text @ '' '' @ year_text)) '' ''
                       = [lower season_text, lower year_text]"
    by (rule split_lower_two_pieces)
  from assms(1,2) have body: "get_airing_premiere env soup =
      (if lower season_text = ''fall'' then premiere_year env ''autumn'' (lower year_text)
       else if lower season_text \<notin> set [''spring'', ''summer'', ''autumn'', ''winter'']
       then Inl (ParseError ''premiered''
              (''Unable to identify season '' @ dq @ lower season_text @ dq))
       else premiere_year env (lower season_text) (lower year_text))"
    unfolding get_airing_premiere_def find_next_a_string_def
    by (simp add: pieces del: append.simps)
  show "\<exists>msg. get_airing_premiere env soup = Inl (ParseError ''premiered'' msg)"
    if "season \<notin> {''spring'', ''summer'', ''autumn'', ''winter''}"
    using that unfolding body assms(5) by (simp split: if_splits)
  show "\<exists>msg. get_airing_premiere env soup = Inl (ParseError ''premiered'' msg)"
    if "py_int (int_max_str_digits env) (lower year_text) = None"
    using that unfolding body by (simp add: premiere_year_def)
  show "get_airing_premiere env soup = Inr (PyPair (PyInt y) (PyStr season))"
    if "season \<in> {''spring'', ''summer'', ''autumn'', ''winter''}"
      and "py_int (int_max_str_digits env) (lower year_text) = Some y"
    using that unfolding body assms(5) by (simp add: premiere_year_def split: if_splits)
qed

lemma get_airing_premiere_absent:
  "find_span soup ''Premiered:'' = None \<Longrightarrow> get_airing_premiere env soup = Inr PyNone"
  by (simp add: get_airing_premiere_def)

text \<open>The spec's examples, \<open>Fall 2014\<close> and \<open>Foo 2014\<close>.\<close>

lemma premiere_examples:
  "get_airing_premiere example_env airing_soup = Inr (PyPair (PyInt 2014) (PyStr ''autumn''))"
  "get_airing_premiere example_env
     (airing_soup\<lparr>find_span := [''Premiered:'' \<mapsto> label_link ''Foo 2014'']\<rparr>)
     = Inl (ParseError ''premiered'' (''Unable to identify season '' @ dq @ ''foo'' @ dq))"
  by (simp_all add: eval_defs)

text \<open>
  A link text that does not split at its spaces into exactly two pieces fails in the
  unpacking \<open>season, year = ...\<close>, with a \<open>ValueError\<close>.
\<close>

lemma get_airing_premiere_unpack:
  assumes "find_span soup ''Premiered:'' = Some pretag"
    and "find_next_a pretag = Some (Element (Some s))"
    and "length (split (lower s) '' '') \<noteq> 2"
  shows "get_airing_premiere env soup = Inl ValueError"
proof -
  obtain pieces where pieces: "split (lower s) '' '' = pieces" by simp
  with assms(3) have "length pieces \<noteq> 2" by simp
  then have "(case pieces of
          [season, year] \<Rightarrow>
            if season = ''fall'' then premiere_year env ''autumn'' year
            else if season \<notin> set [''spring'', ''summer'', ''autumn'', ''winter'']
            then Inl (ParseError ''premiered''
                   (''Unable to identify season '' @ dq @ season @ dq))
            else premiere_year env season year
        | _ \<Rightarrow> Inl ValueError) = Inl ValueError"
  proof (cases pieces)
    case Nil
    then show ?thesis by simp
  next
    case one: (Cons a rest)
    show ?thesis
    proof (cases rest)
      case Nil
      with one show ?thesis by simp
    next
      case two: (Cons b rest')
      with one \<open>length pieces \<noteq> 2\<close> obtain c rest'' where "rest' = c # rest''"
        by (cases rest') auto
      with one two show ?thesis by simp
    qed
  qed
  with assms(1,2) pieces show ?thesis
    by (simp add: get_airing_premiere_def find_next_a_string_def)
qed

section \<open>The fetcher's results\<close>

lemma retrieve_anime_exhausted:
  "retry_on_fail_get env (get_url_from_id_ref i) = None \<Longrightarrow>
     retrieve_anime env i = Inr (StatusCode 404)"
  by (simp add: retrieve_anime_def)

text \<open>
  A response that is not OK is false, so the first test answers it with 404 and the
  branch that returns its status code is never reached.
\<close>

lemma retrieve_anime_not_ok:
  "retry_on_fail_get env (get_url_from_id_ref i) = Some r \<Longrightarrow> \<not> ok r \<Longrightarrow>
     retrieve_anime env i = Inr (StatusCode 404)"
  by (simp add: retrieve_anime_def response_bool_def)

lemma retrieve_anime_pair_needs_ok:
  "retrieve_anime env i = Inr (Retrieved info anime) \<Longrightarrow>
     \<exists>r. retry_on_fail_get env (get_url_from_id_ref i) = Some r \<and> ok r"
  by (auto simp: retrieve_anime_def response_bool_def split: option.splits if_splits sum.splits)

lemma retrieve_anime_ok:
  "retry_on_fail_get env (get_url_from_id_ref i) = Some r \<Longrightarrow> ok r \<Longrightarrow>
     process_soup env (html_parser env (content r)) = Inr (succ, anime) \<Longrightarrow>
     retrieve_anime env i
       = Inr (Retrieved \<lparr>success = succ, scraper_retrieved_at = utcnow env, id_ref = i\<rparr> anime)"
  by (simp add: retrieve_anime_def response_bool_def)

lemma example_urls:
  "get_url_from_id_ref 1 = ''http://myanimelist.net/anime/1''"
  "get_url_from_id_ref 2 = ''http://myanimelist.net/anime/2''"
  "get_url_from_id_ref 3 = ''http://myanimelist.net/anime/3''"
  by code_simp+

lemma retrieve_anime_examples:
  "retrieve_anime example_env 1
     = Inr (Retrieved \<lparr>success = True, scraper_retrieved_at = 0, id_ref = 1\<rparr> bebop_record)"
  "retrieve_anime example_env 3 = Inr (StatusCode 404)"
proof -
  have "retry_on_fail_get example_env (get_url_from_id_ref 1)
          = Some \<lparr>status_code = 200, ok = True, content = ''<html>''\<rparr>"
    by (simp add: example_urls example_env_def example_fetch_def)
  moreover have "process_soup example_env (html_parser example_env ''<html>'') = Inr (True, bebop_record)"
    using bebop_processed by (simp add: process_soup_def example_env_def)
  ultimately show "retrieve_anime example_env 1
     = Inr (Retrieved \<lparr>success = True, scraper_retrieved_at = 0, id_ref = 1\<rparr> bebop_record)"
    using retrieve_anime_ok [of example_env 1 _ True bebop_record] by (simp add: example_env_def)
  have "retry_on_fail_get example_env (get_url_from_id_ref 3) = None"
    by (simp add: example_urls example_env_def example_fetch_def)
  then show "retrieve_anime example_env 3 = Inr (StatusCode 404)"
    by (rule retrieve_anime_exhausted)
qed

section \<open>The extraction table: success, keys and failures\<close>







text \<open>
  C4. The claim fails on a response that is not OK: the fetch of identifier 2 ends with
  status 500, and \<open>retrieve_anime\<close> returns 404, not the response's status code.
\<close>

theorem retrieve_anime_not_ok_returns_404:
  "retry_on_fail_get example_env (get_url_from_id_ref 2)
     = Some \<lparr>status_code = 500, ok = False, content = []\<rparr>
   \<and> retrieve_anime example_env 2 = Inr (StatusCode 404)"
proof -
  have fetch: "retry_on_fail_get example_env (get_url_from_id_ref 2)
     = Some \<lparr>status_code = 500, ok = False, content = []\<rparr>"
    by (simp add: example_urls example_env_def example_fetch_def)
  from retrieve_anime_not_ok [OF fetch] fetch show ?thesis by simp
qed



text \<open>
  C6. Without the \<open>Status:\<close> label the extraction raises a missing-tag error. With the
  label beside a text, the text is trimmed and compared without regard to case: on
  \<open>finished airing\<close> the result is \<open>Finished Airing\<close>, on \<open>currently airing\<close> it is
  \<open>Currently Airing\<close>, and on every other text a parse error is raised.
\<close>

theorem get_airing_status_spec:
  "(find_span soup ''Status:'' = None \<longrightarrow>
      get_airing_status soup = Inl (MissingTagError ''status''))
   \<and> (find_span soup ''Status:'' = Some pretag \<and> next_sibling pretag = Some (NavigableString s) \<longrightarrow>
        (lower (strip s) = ''finished airing'' \<longrightarrow>
            get_airing_status soup = Inr (PyStr ''Finished Airing''))
      \<and> (lower (strip s) = ''currently airing'' \<longrightarrow>
            get_airing_status soup = Inr (PyStr ''Currently Airing''))
      \<and> (lower (strip s) \<noteq> ''finished airing'' \<and> lower (strip s) \<noteq> ''currently airing'' \<longrightarrow>
            (\<exists>msg. get_airing_status soup = Inl (ParseError ''status'' msg))))"
proof (intro conjI impI)
  assume "find_span soup ''Status:'' = None"
  then show "get_airing_status soup = Inl (MissingTagError ''status'')"
    by (simp add: get_airing_status_def)
next
  assume found: "find_span soup ''Status:'' = Some pretag \<and> next_sibling pretag = Some (NavigableString s)"
  then have body: "get_airing_status soup =
      (case status_table (lower (strip s)) of
         None \<Rightarrow> Inl (ParseError ''status''
                   (''Unable to identify text '' @ dq @ lower (strip s) @ dq))
       | Some status \<Rightarrow> Inr (PyStr status))"
    by (simp add: get_airing_status_def next_sibling_strip_def Let_def)
  show "get_airing_status soup = Inr (PyStr ''Finished Airing'')"
    if "lower (strip s) = ''finished airing''"
    unfolding body that by (simp add: status_table_def)
  show "get_airing_status soup = Inr (PyStr ''Currently Airing'')"
    if "lower (strip s) = ''currently airing''"
    unfolding body that by (simp add: status_table_def)
  show "\<exists>msg. get_airing_status soup = Inl (ParseError ''status'' msg)"
    if "lower (strip s) \<noteq> ''finished airing'' \<and> lower (strip s) \<noteq> ''currently airing''"
    unfolding body using that by (simp add: status_table_def)
qed

theorem get_airing_status_spec_witness:
  "get_airing_status (airing_soup\<lparr>find_span := Map.empty\<rparr>) = Inl (MissingTagError ''status'')
   \<and> get_airing_status (airing_soup\<lparr>find_span := [''Status:'' \<mapsto> label_text '' Currently Airing '']\<rparr>)
       = Inr (PyStr ''Currently Airing'')
   \<and> get_airing_status (airing_soup\<lparr>find_span := [''Status:'' \<mapsto> label_text '' FINISHED airing '']\<rparr>)
       = Inr (PyStr ''Finished Airing'')
   \<and> (\<exists>msg. get_airing_status (airing_soup\<lparr>find_span := [''Status:'' \<mapsto> label_text ''Not yet aired'']\<rparr>)
         = Inl (ParseError ''status'' msg))"
proof -
  have currently: "lower (strip '' Currently Airing '') = ''currently airing''"
    by (simp add: eval_defs)
  have finished: "lower (strip '' FINISHED airing '') = ''finished airing''"
    by (simp add: eval_defs)
  have other: "lower (strip ''Not yet aired'') \<noteq> ''finished airing''
               \<and> lower (strip ''Not yet aired'') \<noteq> ''currently airing''"
    by (simp add: eval_defs)
  from get_airing_status_spec [of "airing_soup\<lparr>find_span := Map.empty\<rparr>"]
  have "get_airing_status (airing_soup\<lparr>find_span := Map.empty\<rparr>) = Inl (MissingTagError ''status'')"
    by simp
  moreover
  from get_airing_status_spec
      [of "airing_soup\<lparr>find_span := [''Status:'' \<mapsto> label_text '' Currently Airing '']\<rparr>"
        "label_text '' Currently Airing ''" "'' Currently Airing ''"] currently
  have "get_airing_status (airing_soup\<lparr>find_span := [''Status:'' \<mapsto> label_text '' Currently Airing '']\<rparr>)
       = Inr (PyStr ''Currently Airing'')"
    by (simp add: label_text_def)
  moreover
  from get_airing_status_spec
      [of "airing_soup\<lparr>find_span := [''Status:'' \<mapsto> label_text '' FINISHED airing '']\<rparr>"
        "label_text '' FINISHED airing ''" "'' FINISHED airing ''"] finished
  have "get_airing_status (airing_soup\<lparr>find_span := [''Status:'' \<mapsto> label_text '' FINISHED airing '']\<rparr>)
       = Inr (PyStr ''Finished Airing'')"
    by (simp add: label_text_def)
  moreover
  from get_airing_status_spec
      [of "airing_soup\<lparr>find_span := [''Status:'' \<mapsto> label_text ''Not yet aired'']\<rparr>"
        "label_text ''Not yet aired''" "''Not yet aired''"] other
  have "\<exists>msg. get_airing_status (airing_soup\<lparr>find_span := [''Status:'' \<mapsto> label_text ''Not yet aired'']\<rparr>)
         = Inl (ParseError ''status'' msg)"
    by (simp add: label_text_def)
  ultimately show ?thesis by blast
qed

text \<open>
  C7. The claim fails on a page whose \<open>Aired:\<close> text holds a line break inside the start
  date: the text is spliced into Python source and evaluated, the line break ends the
  line inside the string literal, and the \<open>SyntaxError\<close> is neither a date nor a parse
  error of the field; it leaves \<open>_process_soup\<close> as well.
\<close>

theorem aired_line_break_raises_syntax_error:
  "find_span line_break_soup ''Aired:''
     = Some (label_text ('' Apr 3,'' @ [CHR 0x0A] @ ''2015 to ? ''))
   \<and> get_start_date example_env line_break_soup = Inl SyntaxError
   \<and> process_soup example_env line_break_soup = Inl SyntaxError"
  by (simp add: eval_defs)

text \<open>
  C8. The claim fails on a page whose \<open>Premiered:\<close> link text is not a season, one space
  and a year: on \<open>Foo\<close> and on \<open>Fall 2014\<close> followed by a space, the unpacking of the
  split text raises a \<open>ValueError\<close>, which is neither a parse error nor a pair, and
  which leaves \<open>_process_soup\<close> as well.
\<close>

theorem premiered_unpack_raises_value_error:
  "find_span one_word_soup ''Premiered:'' = Some (label_link ''Foo'')
   \<and> get_airing_premiere example_env one_word_soup = Inl ValueError
   \<and> process_soup example_env one_word_soup = Inl ValueError
   \<and> find_span trailing_space_soup ''Premiered:'' = Some (label_link ''Fall 2014 '')
   \<and> get_airing_premiere example_env trailing_space_soup = Inl ValueError
   \<and> process_soup example_env trailing_space_soup = Inl ValueError"
  by (simp add: eval_defs)





end
